theory Spec2Isabelle
  imports Complex_Main
begin

section \<open>LSNMF: alternating nonnegative least squares with projected gradients\<close>

text \<open>
  A shallow embedding of \<^verbatim>\<open>src/methods/factorization/lsnmf.py\<close> (class \<^verbatim>\<open>Lsnmf\<close>).
  Python floats are idealised as the real numbers: comparisons, sums and products are
  exact. Every exception the Python can raise is a value \<open>Inl e\<close> of the result.
\<close>

subsection \<open>Errors\<close>

datatype error =
    ShapeError                 \<comment> \<open>numpy: operands of incompatible shapes\<close>
  | UnboundLocalError string   \<comment> \<open>a local variable is read before its first assignment\<close>
  | ValueError                 \<comment> \<open>tuple unpacking with the wrong number of values\<close>
  | IndexError                 \<comment> \<open>an index outside an array or matrix\<close>
  | AttributeError             \<comment> \<open>an attribute the object does not have\<close>
  | TypeError                  \<comment> \<open>a call with a keyword the callee does not take\<close>

definition nth_err :: "'a list \<Rightarrow> nat \<Rightarrow> error + 'a" where
  "nth_err xs i = (if i < length xs then Inr (xs ! i) else Inl IndexError)"

subsection \<open>Dense matrices\<close>

text \<open>
  Modelled from the spec: \<^verbatim>\<open>dot\<close>, \<^verbatim>\<open>max\<close>, \<^verbatim>\<open>multiply\<close>, \<^verbatim>\<open>norm\<close> and \<^verbatim>\<open>vstack\<close> of
  \<^verbatim>\<open>utils.linalg\<close>, which the class imports and which is not part of the source file. They
  are the matrix operations the specification names: product, elementwise maximum with a
  scalar, elementwise product, Frobenius norm, vertical stacking. A dense matrix
  (\<^verbatim>\<open>numpy.matrix\<close>) is the list of its rows; transposition, subtraction, the product
  with a number and the sum of the entries are numpy's. Operands whose shapes do not fit
  give \<open>ShapeError\<close>; numpy's broadcasting of unequal shapes is not modelled.
\<close>

type_synonym mat = "real list list"

definition nrows :: "mat \<Rightarrow> nat" where
  "nrows A = length A"

definition ncols :: "mat \<Rightarrow> nat" where
  "ncols A = (case A of [] \<Rightarrow> 0 | r # _ \<Rightarrow> length r)"

definition wf_mat :: "mat \<Rightarrow> bool" where
  "wf_mat A = list_all (\<lambda>r. length r = ncols A) A"

definition same_shape :: "mat \<Rightarrow> mat \<Rightarrow> bool" where
  "same_shape A B = (nrows A = nrows B \<and> ncols A = ncols B)"


definition transpose_m :: "mat \<Rightarrow> mat" where
  "transpose_m A = map (\<lambda>j. map (\<lambda>r. r ! j) A) [0..<ncols A]"

definition dot :: "mat \<Rightarrow> mat \<Rightarrow> error + mat" where
  "dot A B =
     (if ncols A = nrows B
      then Inr (map (\<lambda>r. map (\<lambda>c. sum_list (map2 (*) r c)) (transpose_m B)) A)
      else Inl ShapeError)"

definition sub_m :: "mat \<Rightarrow> mat \<Rightarrow> error + mat" where
  "sub_m A B = (if same_shape A B then Inr (map2 (map2 (-)) A B) else Inl ShapeError)"

definition scale_m :: "real \<Rightarrow> mat \<Rightarrow> mat" where
  "scale_m a A = map (map (\<lambda>x. a * x)) A"

definition max_m :: "mat \<Rightarrow> real \<Rightarrow> mat" where
  "max_m A s = map (map (\<lambda>x. max x s)) A"

definition multiply :: "mat \<Rightarrow> mat \<Rightarrow> error + mat" where
  "multiply A B = (if same_shape A B then Inr (map2 (map2 (*)) A B) else Inl ShapeError)"

definition sum_m :: "mat \<Rightarrow> real" where
  "sum_m A = sum_list (map sum_list A)"

definition sumsq :: "real list \<Rightarrow> real" where
  "sumsq xs = sum_list (map (\<lambda>x. x * x) xs)"

definition norm_m :: "mat \<Rightarrow> real" where
  "norm_m A = sqrt (sumsq (concat A))"

text \<open>
  \<^verbatim>\<open>vstack(X, format)\<close> stacks the matrices of the sequence \<open>X\<close>, which must have one number
  of columns. Its second positional parameter names the sparse format of the result and is
  not used when the matrices are dense. A matrix given as \<open>X\<close> is the sequence of its rows
  (\<open>rows_seq\<close>), each a matrix of one row.
\<close>

definition vstack :: "mat list \<Rightarrow> mat option \<Rightarrow> error + mat" where
  "vstack X fmt =
     (case X of
        [] \<Rightarrow> Inl ValueError
      | A # _ \<Rightarrow> if list_all (\<lambda>B. ncols B = ncols A) X then Inr (concat X) else Inl ShapeError)"

definition rows_seq :: "mat \<Rightarrow> mat list" where
  "rows_seq A = map (\<lambda>r. [r]) A"

definition mat_get :: "mat \<Rightarrow> nat \<Rightarrow> nat \<Rightarrow> error + real" where
  "mat_get A i j = (if i < length A \<and> j < length (A ! i) then Inr (A ! i ! j) else Inl IndexError)"

subsection \<open>Sparse matrices in compressed-row format\<close>

text \<open>
  The sparse branches of the class read \<^verbatim>\<open>X.shape\<close>, \<^verbatim>\<open>X.indptr\<close>, \<^verbatim>\<open>X.indices\<close> and
  \<^verbatim>\<open>X[row, col]\<close>: a \<^verbatim>\<open>scipy.sparse.csr_matrix\<close>. Row \<open>r\<close> stores the entries at the
  positions \<open>indptr ! r ..< indptr ! (r + 1)\<close> of \<open>indices\<close> (their columns) and \<open>data\<close>
  (their values); an entry that is not stored is zero, and \<^verbatim>\<open>X[row, col]\<close> adds up what is
  stored for that column.
\<close>

record csr =
  shape :: "nat \<times> nat"
  indptr :: "nat list"
  indices :: "nat list"
  data :: "real list"

datatype matrix = Dense mat | Sparse csr

definition isspmatrix :: "matrix \<Rightarrow> bool" where
  "isspmatrix M = (case M of Dense _ \<Rightarrow> False | Sparse _ \<Rightarrow> True)"

definition csr_row :: "csr \<Rightarrow> nat \<Rightarrow> nat list" where
  "csr_row X row = [indptr X ! row ..< indptr X ! (row + 1)]"

definition csr_get :: "csr \<Rightarrow> nat \<Rightarrow> nat \<Rightarrow> error + real" where
  "csr_get X row col =
     (if row < fst (shape X) \<and> col < snd (shape X)
      then Inr (sum_list (map (\<lambda>k. data X ! k) (filter (\<lambda>k. indices X ! k = col) (csr_row X row))))
      else Inl IndexError)"

definition get :: "matrix \<Rightarrow> nat \<Rightarrow> nat \<Rightarrow> error + real" where
  "get M row col = (case M of Dense A \<Rightarrow> mat_get A row col | Sparse X \<Rightarrow> csr_get X row col)"

subsection \<open>\<^verbatim>\<open>__alleq\<close>: elementwise comparison\<close>

text \<open>
  \<^verbatim>\<open>X, Y = Y, X if not sp.isspmatrix(X) and sp.isspmatrix(Y) else X, Y\<close>: a conditional
  expression binds tighter than the comma, so the right-hand side is the tuple
  \<^verbatim>\<open>(Y, (X if ... else X), Y)\<close> of three values, unpacked into two targets.
\<close>

definition unpack2 :: "'a list \<Rightarrow> error + ('a \<times> 'a)" where
  "unpack2 vs = (case vs of [a, b] \<Rightarrow> Inr (a, b) | _ \<Rightarrow> Inl ValueError)"

text \<open>The \<^verbatim>\<open>while now < upto\<close> loop of one row, over the positions \<open>now ..< upto\<close>.\<close>

fun alleq_entries :: "csr \<Rightarrow> matrix \<Rightarrow> nat \<Rightarrow> nat list \<Rightarrow> error + bool" where
  "alleq_entries X Y row [] = Inr True"
| "alleq_entries X Y row (now # rest) =
     (case nth_err (indices X) now of
        Inl e \<Rightarrow> Inl e
      | Inr col \<Rightarrow>
          (case csr_get X row col of
             Inl e \<Rightarrow> Inl e
           | Inr x \<Rightarrow>
               (case get Y row col of
                  Inl e \<Rightarrow> Inl e
                | Inr y \<Rightarrow> if x \<noteq> y then Inr False else alleq_entries X Y row rest)))"

text \<open>The \<^verbatim>\<open>for row in range(X.shape[0])\<close> loop; \<open>now\<close> is carried from row to row.\<close>

fun alleq_rows :: "csr \<Rightarrow> matrix \<Rightarrow> nat \<Rightarrow> nat list \<Rightarrow> error + bool" where
  "alleq_rows X Y now [] = Inr True"
| "alleq_rows X Y now (row # rows) =
     (case nth_err (indptr X) (row + 1) of
        Inl e \<Rightarrow> Inl e
      | Inr upto' \<Rightarrow>
          (case alleq_entries X Y row [now..<upto'] of
             Inl e \<Rightarrow> Inl e
           | Inr ok \<Rightarrow> if ok then alleq_rows X Y (max now upto') rows else Inr False))"

text \<open>
  \<^verbatim>\<open>(X == Y).all()\<close> on two dense matrices of one shape: every entry of \<open>X\<close> equals the
  entry of \<open>Y\<close> at its place.
\<close>

definition dense_alleq :: "mat \<Rightarrow> mat \<Rightarrow> error + bool" where
  "dense_alleq A B =
     (if same_shape A B then Inr (list_all2 (list_all2 (=)) A B) else Inl ShapeError)"

definition alleq :: "matrix \<Rightarrow> matrix \<Rightarrow> error + bool" where
  "alleq X Y =
     (if isspmatrix X \<or> isspmatrix Y
      then (case unpack2 [Y, (if \<not> isspmatrix X \<and> isspmatrix Y then X else X), Y] of
              Inl e \<Rightarrow> Inl e
            | Inr (X', Y') \<Rightarrow>
                (case X' of
                   Dense _ \<Rightarrow> Inl AttributeError
                 | Sparse S \<Rightarrow> alleq_rows S Y' 0 [0..<fst (shape S)]))
      else (case (X, Y) of
              (Dense A, Dense B) \<Rightarrow> dense_alleq A B
            | _ \<Rightarrow> Inl AttributeError))"

subsection \<open>\<^verbatim>\<open>__extract\<close>: the entries of the projected gradient\<close>

text \<open>
  Dense branch, \<^verbatim>\<open>X[np.logical_or(X<0, Y>0)]\<close>: indexing a \<^verbatim>\<open>numpy.matrix\<close> with a boolean
  mask of its shape gives the selected entries in row-major order, as a matrix of one row.
\<close>

definition extract_dense :: "mat \<Rightarrow> mat \<Rightarrow> error + mat" where
  "extract_dense X Y =
     (if same_shape X Y
      then Inr [concat (map2 (\<lambda>xr yr. map fst (filter (\<lambda>(x, y). x < 0 \<or> 0 < y) (zip xr yr))) X Y)]
      else Inl ShapeError)"

text \<open>
  Sparse branch. \<open>R\<close> is a \<^verbatim>\<open>scipy.sparse.lil_matrix\<close>: for every row the list of its
  stored entries (column, value), sorted by column. An assignment \<^verbatim>\<open>R[row, col] = x\<close>
  stores or replaces the entry when \<open>x\<close> is not zero and removes it when \<open>x\<close> is zero;
  \<^verbatim>\<open>tocsr\<close> lays the rows out one after the other. The constructor
  \<^verbatim>\<open>lil_matrix(arg1, shape, dtype, copy)\<close> takes no keyword \<^verbatim>\<open>format\<close>: a call that passes
  one raises \<^verbatim>\<open>TypeError\<close>. Line 171 is \<^verbatim>\<open>sp.lil_matrix(X.shape, format = X.format)\<close>.
\<close>

type_synonym lil_row = "(nat \<times> real) list"

record lil =
  lil_shape :: "nat \<times> nat"
  lil_rows :: "lil_row list"

definition csr_format :: "csr \<Rightarrow> string" where
  "csr_format X = ''csr''"

definition lil_matrix :: "nat \<times> nat \<Rightarrow> string option \<Rightarrow> error + lil" where
  "lil_matrix sh format_kw =
     (case format_kw of
        None \<Rightarrow> Inr \<lparr>lil_shape = sh, lil_rows = replicate (fst sh) []\<rparr>
      | Some f \<Rightarrow> Inl TypeError)"

fun lil_insert :: "nat \<Rightarrow> real \<Rightarrow> lil_row \<Rightarrow> lil_row" where
  "lil_insert j x [] = [(j, x)]"
| "lil_insert j x ((k, v) # r) =
     (if k < j then (k, v) # lil_insert j x r
      else if k = j then (j, x) # r
      else (j, x) # (k, v) # r)"

definition lil_row_set :: "lil_row \<Rightarrow> nat \<Rightarrow> real \<Rightarrow> lil_row" where
  "lil_row_set r j x = (if x \<noteq> 0 then lil_insert j x r else filter (\<lambda>(k, v). k \<noteq> j) r)"

definition lil_setitem :: "lil \<Rightarrow> nat \<Rightarrow> nat \<Rightarrow> real \<Rightarrow> error + lil" where
  "lil_setitem R i j x =
     (if i < fst (lil_shape R) \<and> j < snd (lil_shape R) \<and> i < length (lil_rows R)
      then Inr (R\<lparr>lil_rows := (lil_rows R)[i := lil_row_set (lil_rows R ! i) j x]\<rparr>)
      else Inl IndexError)"

definition tocsr :: "lil \<Rightarrow> csr" where
  "tocsr R =
     \<lparr>shape = lil_shape R,
      indptr = map (\<lambda>i. length (concat (take i (lil_rows R)))) [0..<Suc (length (lil_rows R))],
      indices = concat (map (map fst) (lil_rows R)),
      data = concat (map (map snd) (lil_rows R))\<rparr>"

text \<open>
  One stored entry: \<^verbatim>\<open>if X[row, col] < 0 or Y[row, col] > 0: R[row, col] = X[row, col]\<close>.
  The \<^verbatim>\<open>or\<close> reads \<open>Y\<close> only when the entry of \<open>X\<close> is not negative.
\<close>

definition extract_entry :: "csr \<Rightarrow> matrix \<Rightarrow> nat \<Rightarrow> nat \<Rightarrow> lil \<Rightarrow> error + lil" where
  "extract_entry X Y row col R =
     (case csr_get X row col of
        Inl e \<Rightarrow> Inl e
      | Inr x \<Rightarrow>
          if x < 0 then lil_setitem R row col x
          else (case get Y row col of
                  Inl e \<Rightarrow> Inl e
                | Inr y \<Rightarrow> if 0 < y then lil_setitem R row col x else Inr R))"

fun extract_entries :: "csr \<Rightarrow> matrix \<Rightarrow> nat \<Rightarrow> nat list \<Rightarrow> lil \<Rightarrow> error + lil" where
  "extract_entries X Y row [] R = Inr R"
| "extract_entries X Y row (now # rest) R =
     (case nth_err (indices X) now of
        Inl e \<Rightarrow> Inl e
      | Inr col \<Rightarrow>
          (case extract_entry X Y row col R of
             Inl e \<Rightarrow> Inl e
           | Inr R' \<Rightarrow> extract_entries X Y row rest R'))"

fun extract_rows :: "csr \<Rightarrow> matrix \<Rightarrow> nat \<Rightarrow> nat list \<Rightarrow> lil \<Rightarrow> error + lil" where
  "extract_rows X Y now [] R = Inr R"
| "extract_rows X Y now (row # rows) R =
     (case nth_err (indptr X) (row + 1) of
        Inl e \<Rightarrow> Inl e
      | Inr upto' \<Rightarrow>
          (case extract_entries X Y row [now..<upto'] R of
             Inl e \<Rightarrow> Inl e
           | Inr R' \<Rightarrow> extract_rows X Y (max now upto') rows R'))"

text \<open>
  \<^verbatim>\<open>__extract(X, Y)\<close>. A sparse \<open>X\<close> takes the loop over its stored entries, after the
  constructor call of line 171. A dense \<open>X\<close> takes line 182, where a dense \<open>Y\<close> gives the
  mask and a sparse \<open>Y\<close> does not: with it the indexing raises \<^verbatim>\<open>IndexError\<close>.
\<close>

definition extract_m :: "matrix \<Rightarrow> matrix \<Rightarrow> error + matrix" where
  "extract_m X Y =
     (case X of
        Sparse S \<Rightarrow>
          (case lil_matrix (shape S) (Some (csr_format S)) of
             Inl e \<Rightarrow> Inl e
           | Inr R0 \<Rightarrow>
               (case extract_rows S Y 0 [0..<fst (shape S)] R0 of
                  Inl e \<Rightarrow> Inl e
                | Inr R \<Rightarrow> Inr (Sparse (tocsr R))))
      | Dense A \<Rightarrow>
          (case Y of
             Sparse T \<Rightarrow> Inl IndexError
           | Dense B \<Rightarrow>
               (case extract_dense A B of
                  Inl e \<Rightarrow> Inl e
                | Inr E \<Rightarrow> Inr (Dense E))))"

text \<open>
  Modelled from the spec: \<^verbatim>\<open>norm\<close> of \<^verbatim>\<open>utils.linalg\<close> on a dense or a sparse matrix, the
  Frobenius norm; of a sparse matrix it is taken over the stored values.
\<close>

definition norm_mx :: "matrix \<Rightarrow> real" where
  "norm_mx M = (case M of Dense A \<Rightarrow> norm_m A | Sparse S \<Rightarrow> sqrt (sumsq (data S)))"

subsection \<open>\<^verbatim>\<open>_subproblem\<close>: projected gradient with a line search\<close>

text \<open>\<^verbatim>\<open>operator.ne\<close>, and the truth value Python gives a number.\<close>

definition ne :: "real \<Rightarrow> real \<Rightarrow> bool" where
  "ne a b = (a \<noteq> b)"

definition truthy :: "real \<Rightarrow> bool" where
  "truthy x = (x \<noteq> 0)"

text \<open>
  Modelled from the spec: \<^verbatim>\<open>sop\<close> of \<^verbatim>\<open>utils.linalg\<close> is not part of the source file. It
  is the elementwise operation of a matrix and a scalar (the specification's "elementwise
  compare"); on the number \<^verbatim>\<open>0.5 * dQd\<close> it is the operation itself, here the
  "negate-equality test" \<^verbatim>\<open>ne\<close>. Python adds the resulting boolean as 0 or 1.
\<close>

definition sop :: "real \<Rightarrow> real \<Rightarrow> (real \<Rightarrow> real \<Rightarrow> bool) \<Rightarrow> bool" where
  "sop x s op = op x s"

definition beta :: real where
  "beta = 0.1"

text \<open>
  The local variables of \<^verbatim>\<open>_subproblem\<close>. \<open>None\<close> is a variable that has not been assigned
  yet: \<^verbatim>\<open>decr_alpha\<close> and \<^verbatim>\<open>Hp\<close> are assigned only under \<^verbatim>\<open>if n_iter == 1\<close>, \<^verbatim>\<open>grad\<close> and
  \<^verbatim>\<open>iter\<close> only inside the outer loop. They are locals of the function, so they keep their
  values from one inner iteration to the next.
\<close>

record vars =
  v_H :: mat
  v_alpha :: real
  v_decr_alpha :: "bool option"
  v_Hp :: "mat option"
  v_grad :: "mat option"
  v_iter :: "nat option"

text \<open>
  Lines 125 to 129: the proposed step \<^verbatim>\<open>Hn\<close> and the value of \<^verbatim>\<open>suff_decr\<close>.
\<close>

definition probe :: "mat \<Rightarrow> mat \<Rightarrow> mat \<Rightarrow> real \<Rightarrow> error + (mat \<times> real)" where
  "probe WtW g H0 a =
     (case sub_m H0 (scale_m a g) of
        Inl e \<Rightarrow> Inl e
      | Inr P \<Rightarrow>
          (case sub_m (max_m P 0) H0 of
             Inl e \<Rightarrow> Inl e
           | Inr d \<Rightarrow>
               (case multiply g d of
                  Inl e \<Rightarrow> Inl e
                | Inr gd \<Rightarrow>
                    (case dot WtW d of
                       Inl e \<Rightarrow> Inl e
                     | Inr Qd \<Rightarrow>
                         (case multiply Qd d of
                            Inl e \<Rightarrow> Inl e
                          | Inr dQ \<Rightarrow>
                              Inr (max_m P 0,
                                   0.99 * sum_m gd + of_bool (sop (0.5 * sum_m dQ) 0 ne)))))))"

text \<open>
  The loop \<^verbatim>\<open>for n_iter in xrange(20)\<close>, over the values of \<^verbatim>\<open>n_iter\<close> still to come.
  A \<^verbatim>\<open>break\<close> returns the variables; so does the end of the loop.
\<close>

fun line_search :: "mat \<Rightarrow> mat \<Rightarrow> nat list \<Rightarrow> vars \<Rightarrow> error + vars" where
  "line_search WtW g [] s = Inr s"
| "line_search WtW g (n_iter # rest) s =
     (case probe WtW g (v_H s) (v_alpha s) of
        Inl e \<Rightarrow> Inl e
      | Inr (Hn, suff_decr) \<Rightarrow>
          (let s1 = (if n_iter = 1
                     then s\<lparr>v_decr_alpha := Some (\<not> truthy suff_decr), v_Hp := Some (v_H s)\<rparr>
                     else s)
           in case v_decr_alpha s1 of
                None \<Rightarrow> Inl (UnboundLocalError ''decr_alpha'')
              | Some da \<Rightarrow>
                  if da
                  then (if truthy suff_decr
                        then Inr (s1\<lparr>v_H := Hn\<rparr>)
                        else line_search WtW g rest (s1\<lparr>v_alpha := v_alpha s1 * beta\<rparr>))
                  else (case v_Hp s1 of
                          None \<Rightarrow> Inl (UnboundLocalError ''Hp'')
                        | Some hp \<Rightarrow>
                            if \<not> truthy suff_decr
                            then Inr (s1\<lparr>v_H := hp\<rparr>)
                            else (case alleq (Dense hp) (Dense Hn) of
                                    Inl e \<Rightarrow> Inl e
                                  | Inr eq \<Rightarrow>
                                      if eq
                                      then Inr (s1\<lparr>v_H := hp\<rparr>)
                                      else line_search WtW g rest
                                             (s1\<lparr>v_alpha := v_alpha s1 / beta, v_Hp := Some Hn\<rparr>)))))"

text \<open>The loop \<^verbatim>\<open>for iter in xrange(max_iter)\<close>, over the values of \<^verbatim>\<open>iter\<close> still to come.\<close>

fun sub_iters :: "mat \<Rightarrow> mat \<Rightarrow> real \<Rightarrow> nat list \<Rightarrow> vars \<Rightarrow> error + vars" where
  "sub_iters WtW WtV epsH [] s = Inr s"
| "sub_iters WtW WtV epsH (it # rest) s =
     (case dot WtW (v_H s) of
        Inl e \<Rightarrow> Inl e
      | Inr P \<Rightarrow>
          (case sub_m P WtV of
             Inl e \<Rightarrow> Inl e
           | Inr g \<Rightarrow>
               (case extract_m (Dense g) (Dense (v_H s)) of
                  Inl e \<Rightarrow> Inl e
                | Inr E \<Rightarrow>
                    if norm_mx E < epsH
                    then Inr (s\<lparr>v_grad := Some g, v_iter := Some it\<rparr>)
                    else (case line_search WtW g [0..<20] (s\<lparr>v_grad := Some g, v_iter := Some it\<rparr>) of
                            Inl e \<Rightarrow> Inl e
                          | Inr s' \<Rightarrow> sub_iters WtW WtV epsH rest s'))))"

text \<open>
  \<^verbatim>\<open>_subproblem(V, W, Hinit, epsH, max_iter)\<close> on dense matrices. Line 111 is
  \<^verbatim>\<open>WtW = dot(W.T, W.T)\<close>. The result is \<^verbatim>\<open>(H, grad, iter)\<close>.
\<close>

definition init_vars :: "mat \<Rightarrow> vars" where
  "init_vars Hinit =
     \<lparr>v_H = Hinit, v_alpha = 1, v_decr_alpha = None, v_Hp = None, v_grad = None, v_iter = None\<rparr>"

definition subproblem :: "mat \<Rightarrow> mat \<Rightarrow> mat \<Rightarrow> real \<Rightarrow> nat \<Rightarrow> error + (mat \<times> mat \<times> nat)" where
  "subproblem V W Hinit epsH max_iter =
     (case dot (transpose_m W) V of
        Inl e \<Rightarrow> Inl e
      | Inr WtV \<Rightarrow>
          (case dot (transpose_m W) (transpose_m W) of
             Inl e \<Rightarrow> Inl e
           | Inr WtW \<Rightarrow>
               (case sub_iters WtW WtV epsH [0..<max_iter] (init_vars Hinit) of
                  Inl e \<Rightarrow> Inl e
                | Inr s \<Rightarrow>
                    (case v_grad s of
                       None \<Rightarrow> Inl (UnboundLocalError ''grad'')
                     | Some g \<Rightarrow>
                         (case v_iter s of
                            None \<Rightarrow> Inl (UnboundLocalError ''iter'')
                          | Some i \<Rightarrow> Inr (v_H s, g, i))))))"

subsection \<open>The alternating driver: \<^verbatim>\<open>update\<close>, \<^verbatim>\<open>objective\<close>, \<^verbatim>\<open>_is_satisfied\<close>, \<^verbatim>\<open>factorize\<close>\<close>

text \<open>
  The attributes of the object that the optimisation reads and writes. \<^verbatim>\<open>max_iter\<close> is
  \<open>None\<close> when it is not set; Python also takes the value 0 as not set. \<^verbatim>\<open>test_conv\<close> is 0
  when it is not set. The driver is modelled on dense matrices, for one trial from a seeded
  pair; the seeding, the callback and the tracker are outside the optimisation.
\<close>

record lsnmf =
  self_V :: mat
  self_W :: mat
  self_H :: mat
  self_gW :: mat
  self_gH :: mat
  self_init_grad :: real
  self_epsW :: real
  self_epsH :: real
  self_min_residuals :: real
  self_max_iter :: "int option"
  self_test_conv :: nat

text \<open>\<^verbatim>\<open>_set_params\<close>: \<^verbatim>\<open>if not self.min_residuals: self.min_residuals = 0.001\<close>.\<close>

definition set_params :: "real option \<Rightarrow> real" where
  "set_params mr = (case mr of None \<Rightarrow> 0.001 | Some r \<Rightarrow> if r = 0 then 0.001 else r)"

text \<open>
  \<^verbatim>\<open>update\<close> calls \<^verbatim>\<open>self.subproblem\<close> (lines 85 and 89). The class defines \<^verbatim>\<open>_subproblem\<close>
  and no \<^verbatim>\<open>subproblem\<close>, and its base class \<^verbatim>\<open>mstd.Nmf_std\<close> is not part of the source
  file. The parameter \<open>sp\<close> is what the attribute \<^verbatim>\<open>self.subproblem\<close> gives: \<open>None\<close> when the
  object has no such attribute, and then line 85 raises \<^verbatim>\<open>AttributeError\<close> before any
  argument is computed; \<open>Some f\<close> when it is the method \<open>f\<close>. With the class as it is written
  and a base class that defines no such method, \<open>sp\<close> is \<open>None\<close>. An exception leaves the
  attributes as they were before the failing statement.
\<close>

type_synonym solver = "mat \<Rightarrow> mat \<Rightarrow> mat \<Rightarrow> real \<Rightarrow> nat \<Rightarrow> error + (mat \<times> mat \<times> nat)"

definition update :: "solver option \<Rightarrow> lsnmf \<Rightarrow> error + lsnmf" where
  "update sp s =
     (case sp of
        None \<Rightarrow> Inl AttributeError
      | Some solve \<Rightarrow>
          (case solve (transpose_m (self_V s)) (transpose_m (self_H s)) (transpose_m (self_W s))
                  (self_epsW s) 1000 of
             Inl e \<Rightarrow> Inl e
           | Inr (W1, gW1, it) \<Rightarrow>
               (let s1 = s\<lparr>self_W := transpose_m W1, self_gW := transpose_m gW1,
                           self_epsW := (if it = 1 then 0.1 * self_epsW s else self_epsW s)\<rparr>
                in case solve (self_V s1) (self_W s1) (self_H s1) (self_epsH s1) 1000 of
                     Inl e \<Rightarrow> Inl e
                   | Inr (H1, gH1, it2) \<Rightarrow>
                       Inr (s1\<lparr>self_H := H1, self_gH := gH1,
                               self_epsH := (if it2 = 1 then 0.1 * self_epsH s1
                                             else self_epsH s1)\<rparr>))))"

text \<open>
  \<^verbatim>\<open>objective\<close>, line 150. The attributes are dense, so both calls of \<^verbatim>\<open>__extract\<close> take
  line 182; \<^verbatim>\<open>vstack\<close> gets the list of the two results and no format.
\<close>

definition objective :: "lsnmf \<Rightarrow> error + real" where
  "objective s =
     (case extract_dense (self_gW s) (self_W s) of
        Inl e \<Rightarrow> Inl e
      | Inr EW \<Rightarrow>
          (case extract_dense (self_gH s) (self_H s) of
             Inl e \<Rightarrow> Inl e
           | Inr EH \<Rightarrow>
               (case vstack [EW, EH] None of
                  Inl e \<Rightarrow> Inl e
                | Inr S \<Rightarrow> Inr (norm_m S))))"

definition is_satisfied :: "lsnmf \<Rightarrow> real \<Rightarrow> int \<Rightarrow> bool" where
  "is_satisfied s cobj iter =
     (if (case self_max_iter s of None \<Rightarrow> False | Some k \<Rightarrow> k \<noteq> 0 \<and> k < iter) then False
      else if 0 < iter \<and> cobj < self_min_residuals s * self_init_grad s then False
      else True)"

text \<open>
  Lines 48 to 52 of \<^verbatim>\<open>factorize\<close>, after the seeding: the initial gradients, \<^verbatim>\<open>init_grad\<close>
  and the two tolerances. Line 50 is \<^verbatim>\<open>norm(vstack(self.gW, self.gH.T))\<close>: two positional
  arguments, so \<^verbatim>\<open>gW\<close> is the sequence that is stacked and \<^verbatim>\<open>gH.T\<close> is the format.
\<close>

definition init_trial ::
  "mat \<Rightarrow> mat \<Rightarrow> mat \<Rightarrow> real \<Rightarrow> int option \<Rightarrow> nat \<Rightarrow> error + lsnmf" where
  "init_trial V0 W0 H0 mr mi tc =
     (case dot H0 (transpose_m H0) of
        Inl e \<Rightarrow> Inl e
      | Inr HHt \<Rightarrow>
     (case dot W0 HHt of
        Inl e \<Rightarrow> Inl e
      | Inr WHHt \<Rightarrow>
     (case dot V0 (transpose_m H0) of
        Inl e \<Rightarrow> Inl e
      | Inr VHt \<Rightarrow>
     (case sub_m WHHt VHt of
        Inl e \<Rightarrow> Inl e
      | Inr gW0 \<Rightarrow>
     (case dot (transpose_m W0) W0 of
        Inl e \<Rightarrow> Inl e
      | Inr WtW \<Rightarrow>
     (case dot WtW H0 of
        Inl e \<Rightarrow> Inl e
      | Inr WtWH \<Rightarrow>
     (case dot (transpose_m W0) V0 of
        Inl e \<Rightarrow> Inl e
      | Inr WtV \<Rightarrow>
     (case sub_m WtWH WtV of
        Inl e \<Rightarrow> Inl e
      | Inr gH0 \<Rightarrow>
     (case vstack (rows_seq gW0) (Some (transpose_m gH0)) of
        Inl e \<Rightarrow> Inl e
      | Inr S \<Rightarrow>
          Inr \<lparr>self_V = V0, self_W = W0, self_H = H0, self_gW = gW0, self_gH = gH0,
               self_init_grad = norm_m S,
               self_epsW = max 0.001 mr * norm_m S,
               self_epsH = max 0.001 mr * norm_m S,
               self_min_residuals = mr, self_max_iter = mi, self_test_conv = tc\<rparr>)))))))))"

text \<open>
  The loop \<^verbatim>\<open>while self._is_satisfied(cobj, iter)\<close>. Nothing bounds it when \<^verbatim>\<open>max_iter\<close>
  is not set, so the model takes fuel: \<open>None\<close> is a loop still running when the fuel is
  spent. The result is the object, \<^verbatim>\<open>cobj\<close> and \<^verbatim>\<open>iter\<close> at the exit of the loop; \<^verbatim>\<open>iter\<close>
  counts the calls of \<^verbatim>\<open>update\<close> that completed.
\<close>

fun iterate ::
  "solver option \<Rightarrow> nat \<Rightarrow> lsnmf \<Rightarrow> real \<Rightarrow> nat \<Rightarrow> (error + (lsnmf \<times> real \<times> nat)) option" where
  "iterate sp 0 s cobj iter = None"
| "iterate sp (Suc fuel) s cobj iter =
     (if is_satisfied s cobj (int iter)
      then (case update sp s of
              Inl e \<Rightarrow> Some (Inl e)
            | Inr s' \<Rightarrow>
                if self_test_conv s = 0 \<or> iter mod self_test_conv s = 0
                then (case objective s' of
                        Inl e \<Rightarrow> Some (Inl e)
                      | Inr c \<Rightarrow> iterate sp fuel s' c (iter + 1))
                else iterate sp fuel s' cobj (iter + 1))
      else Some (Inr (s, cobj, iter)))"

text \<open>
  One trial of \<^verbatim>\<open>factorize\<close> from seeded \<open>W0\<close> and \<open>H0\<close>: the fitted object, \<^verbatim>\<open>final_obj\<close>
  and \<^verbatim>\<open>n_iter = iter - 1\<close>.
\<close>

definition trial ::
  "solver option \<Rightarrow> nat \<Rightarrow> mat \<Rightarrow> mat \<Rightarrow> mat \<Rightarrow> real option \<Rightarrow> int option \<Rightarrow> nat
     \<Rightarrow> (error + (lsnmf \<times> real \<times> int)) option" where
  "trial sp fuel V0 W0 H0 mr mi tc =
     (case init_trial V0 W0 H0 (set_params mr) mi tc of
        Inl e \<Rightarrow> Some (Inl e)
      | Inr s \<Rightarrow>
          (case objective s of
             Inl e \<Rightarrow> Some (Inl e)
           | Inr cobj \<Rightarrow>
               (case iterate sp fuel s cobj 0 of
                  None \<Rightarrow> None
                | Some (Inl e) \<Rightarrow> Some (Inl e)
                | Some (Inr (s', c, it)) \<Rightarrow> Some (Inr (s', c, int it - 1)))))"

subsection \<open>The quantities as the specification states them\<close>

text \<open>
  The specification's sufficient-decrease quantity for a proposed step \<open>Hn\<close>, with
  \<open>d = Hn - H\<close>: \<open>0.99 (grad \<circ> d).sum() + 0.5 ((BtB d) \<circ> d).sum()\<close>.
\<close>

definition suff_decr_spec :: "mat \<Rightarrow> mat \<Rightarrow> mat \<Rightarrow> mat \<Rightarrow> error + real" where
  "suff_decr_spec BtB g H0 Hn =
     (case sub_m Hn H0 of
        Inl e \<Rightarrow> Inl e
      | Inr d \<Rightarrow>
          (case multiply g d of
             Inl e \<Rightarrow> Inl e
           | Inr gd \<Rightarrow>
               (case dot BtB d of
                  Inl e \<Rightarrow> Inl e
                | Inr Qd \<Rightarrow>
                    (case multiply Qd d of
                       Inl e \<Rightarrow> Inl e
                     | Inr dQ \<Rightarrow> Inr (0.99 * sum_m gd + 0.5 * sum_m dQ)))))"

text \<open>
  The specification's gradient of a subproblem: \<open>(Basis\<^sup>T Basis) H - Basis\<^sup>T Const\<close>.
\<close>

definition grad_spec :: "mat \<Rightarrow> mat \<Rightarrow> mat \<Rightarrow> error + mat" where
  "grad_spec Const Basis H0 =
     (case dot (transpose_m Basis) Const of
        Inl e \<Rightarrow> Inl e
      | Inr BtC \<Rightarrow>
          (case dot (transpose_m Basis) Basis of
             Inl e \<Rightarrow> Inl e
           | Inr BtB \<Rightarrow>
               (case dot BtB H0 of
                  Inl e \<Rightarrow> Inl e
                | Inr P \<Rightarrow> sub_m P BtC)))"


text \<open>
  The projected-gradient metric as the specification states it: an entry of \<open>G\<close> is active
  when it is negative or the entry of \<open>X\<close> at its place is positive; the metric is the
  Frobenius norm over the active entries, the others counting as zero.
\<close>

definition pg_metric_spec :: "nat \<Rightarrow> nat \<Rightarrow> (nat \<Rightarrow> nat \<Rightarrow> real) \<Rightarrow> (nat \<Rightarrow> nat \<Rightarrow> real) \<Rightarrow> real" where
  "pg_metric_spec m n G X =
     sqrt (\<Sum>i<m. \<Sum>j<n. if G i j < 0 \<or> 0 < X i j then G i j * G i j else 0)"

text \<open>
  The specification's \<^verbatim>\<open>init_grad\<close>: the Frobenius norm of \<open>gW\<close> stacked on the transpose
  of \<open>gH\<close>.
\<close>

definition init_grad_spec :: "mat \<Rightarrow> mat \<Rightarrow> real" where
  "init_grad_spec gW gH = norm_m (gW @ transpose_m gH)"

text \<open>A dense matrix of \<open>m\<close> rows and \<open>n\<close> columns.\<close>

definition is_mat :: "nat \<Rightarrow> nat \<Rightarrow> mat \<Rightarrow> bool" where
  "is_mat m n A = (length A = m \<and> list_all (\<lambda>r. length r = n) A)"

section \<open>Theorems\<close>

subsection \<open>The elementwise-equality helper\<close>

lemma list_all2_eq_iff: "list_all2 (list_all2 (=)) A B \<longleftrightarrow> A = B"
  by (simp add: list.rel_eq)

text \<open>
  Claim C10. Whenever at least one operand of \<^verbatim>\<open>__alleq\<close> is sparse, the swap statement
  builds three values for two targets, so the call raises the unpacking error and returns
  no boolean; two dense operands of one shape give the elementwise-equality result.
\<close>

theorem alleq_sparse_unpack_error:
  "(isspmatrix X \<or> isspmatrix Y \<longrightarrow> alleq X Y = Inl ValueError) \<and>
   (same_shape A B \<longrightarrow> alleq (Dense A) (Dense B) = Inr (A = B))"
  by (simp add: alleq_def unpack2_def isspmatrix_def dense_alleq_def list_all2_eq_iff)

theorem alleq_sparse_unpack_error_witness:
  "alleq (Sparse \<lparr>shape = (1, 1), indptr = [0, 1], indices = [0], data = [2]\<rparr>) (Dense [[2]])
     = Inl ValueError \<and>
   alleq (Dense [[1, 2]]) (Dense [[1, 3]]) = Inr False \<and>
   alleq (Dense [[1, 2]]) (Dense [[1, 2]]) = Inr True"
  using alleq_sparse_unpack_error
    [of "Sparse \<lparr>shape = (1, 1), indptr = [0, 1], indices = [0], data = [2]\<rparr>" "Dense [[2]]"
        "[[1, 2]]" "[[1, 3]]"]
    alleq_sparse_unpack_error [of "Dense [[1]]" "Dense [[1]]" "[[1, 2]]" "[[1, 2]]"]
  by (simp add: isspmatrix_def same_shape_def nrows_def ncols_def)

subsection \<open>Evaluating matrices of numbers\<close>

lemmas mat_simps = dot_def transpose_m_def ncols_def nrows_def same_shape_def sub_m_def scale_m_def
  max_m_def multiply_def sum_m_def sumsq_def norm_m_def vstack_def rows_seq_def

lemma sqrt_9: "sqrt 9 = 3"
  using real_sqrt_abs [of 3] by simp

lemma sqrt_16: "sqrt 16 = 4"
  using real_sqrt_abs [of 4] by simp

lemma sqrt_25: "sqrt 25 = 5"
  using real_sqrt_abs [of 5] by simp

lemma upt_Cons0: "0 < n \<Longrightarrow> [0..<n] = 0 # [1..<n]"
  by (simp add: upt_conv_Cons)

subsection \<open>The subproblem solver returns only from its first tolerance test\<close>

text \<open>
  At the first probe of the first line search \<^verbatim>\<open>n_iter\<close> is 0, so the block under
  \<^verbatim>\<open>if n_iter == 1\<close> is skipped and \<^verbatim>\<open>if decr_alpha\<close> reads a variable without a value.
\<close>

lemma line_search_first_probe:
  "v_decr_alpha s = None \<Longrightarrow>
   line_search WtW g (0 # rest) s =
     (case probe WtW g (v_H s) (v_alpha s) of
        Inl e \<Rightarrow> Inl e
      | Inr r \<Rightarrow> Inl (UnboundLocalError ''decr_alpha''))"
  by (simp split: sum.splits prod.splits)

lemma sub_iters_first:
  "v_decr_alpha s = None \<Longrightarrow>
   sub_iters WtW WtV e (it # rest) s =
     (case dot WtW (v_H s) of
        Inl e' \<Rightarrow> Inl e'
      | Inr P \<Rightarrow>
          (case sub_m P WtV of
             Inl e' \<Rightarrow> Inl e'
           | Inr g \<Rightarrow>
               (case extract_m (Dense g) (Dense (v_H s)) of
                  Inl e' \<Rightarrow> Inl e'
                | Inr E \<Rightarrow>
                    if norm_mx E < e then Inr (s\<lparr>v_grad := Some g, v_iter := Some it\<rparr>)
                    else (case probe WtW g (v_H s) (v_alpha s) of
                            Inl e' \<Rightarrow> Inl e'
                          | Inr r \<Rightarrow> Inl (UnboundLocalError ''decr_alpha'')))))"
  by (simp add: upt_Cons0 line_search_first_probe split: sum.splits)

lemma subproblem_unfold:
  "0 < n \<Longrightarrow>
   subproblem V W Hinit e n =
     (case dot (transpose_m W) V of
        Inl e' \<Rightarrow> Inl e'
      | Inr WtV \<Rightarrow>
          (case dot (transpose_m W) (transpose_m W) of
             Inl e' \<Rightarrow> Inl e'
           | Inr WtW \<Rightarrow>
               (case dot WtW Hinit of
                  Inl e' \<Rightarrow> Inl e'
                | Inr P \<Rightarrow>
                    (case sub_m P WtV of
                       Inl e' \<Rightarrow> Inl e'
                     | Inr g \<Rightarrow>
                         (case extract_m (Dense g) (Dense Hinit) of
                            Inl e' \<Rightarrow> Inl e'
                          | Inr E \<Rightarrow>
                              if norm_mx E < e then Inr (Hinit, g, 0)
                              else (case probe WtW g Hinit 1 of
                                      Inl e' \<Rightarrow> Inl e'
                                    | Inr r \<Rightarrow> Inl (UnboundLocalError ''decr_alpha'')))))))"
  by (simp add: subproblem_def upt_Cons0 sub_iters_first init_vars_def split: sum.splits)


text \<open>
  Claim C1. The claim is that no run on valid input raises. The run on the nonnegative
  \<open>V = [[11]]\<close> seeded with \<open>W = [[3]]\<close> and \<open>H = [[4]]\<close>, with the default
  \<^verbatim>\<open>min_residuals\<close> and \<^verbatim>\<open>max_iter = 50\<close>, raises in its first update step: \<^verbatim>\<open>UnboundLocalError\<close>
  at the first probe of the first line search when \<^verbatim>\<open>self.subproblem\<close> is \<^verbatim>\<open>_subproblem\<close>, and
  \<^verbatim>\<open>AttributeError\<close> at line 85 when the object has no attribute \<^verbatim>\<open>subproblem\<close>.
\<close>

theorem trial_raises_unbound_local:
  "trial (Some subproblem) (Suc fuel) [[11]] [[3]] [[4]] None (Some 50) 0
     = Some (Inl (UnboundLocalError ''decr_alpha'')) \<and>
   trial None (Suc fuel) [[11]] [[3]] [[4]] None (Some 50) 0 = Some (Inl AttributeError)"
  by (simp add: trial_def init_trial_def mat_simps set_params_def sqrt_25 sqrt_16 objective_def
      extract_m_def extract_dense_def is_satisfied_def update_def subproblem_unfold
      norm_mx_def probe_def sop_def ne_def)

subsection \<open>The line search\<close>

text \<open>
  Claim C2. The claim is that the quantity tested is
  \<open>0.99 (grad \<circ> d).sum() + 0.5 ((BtB d) \<circ> d).sum()\<close> and that a step is sufficient exactly
  when it is negative. In the call \<^verbatim>\<open>_subproblem([[1]], [[2]], [[1]], epsH, 1000)\<close> the first
  probe has \<open>WtW = [[4]]\<close>, \<open>grad = [[2]]\<close>, \<open>H = [[1]]\<close> and \<open>alpha = 1\<close>: it proposes
  \<open>Hn = [[0]]\<close>, the quantity of the claim is 0.02 (not sufficient), and the value the code
  computes is -0.98, which Python's \<^verbatim>\<open>if suff_decr\<close> takes as true.
\<close>

theorem suff_decr_value_differs:
  "probe [[4]] [[2]] [[1]] 1 = Inr ([[0]], - 0.98) \<and>
   suff_decr_spec [[4]] [[2]] [[1]] [[0]] = Inr 0.02 \<and>
   truthy (- 0.98)"
  by (simp add: probe_def suff_decr_spec_def mat_simps sop_def ne_def truthy_def)

text \<open>
  Claim C3. The claim is that the gradient is \<open>(Basis\<^sup>T Basis) H - Basis\<^sup>T Const\<close>. Line 111
  multiplies the transpose by itself. With \<open>Basis = [[1, 1], [0, 1]]\<close> and
  \<open>Const = H = [[1, 0], [0, 1]]\<close> the solver returns \<open>[[0, 0], [1, 0]]\<close> as the gradient,
  where the claim's is \<open>[[0, 1], [0, 1]]\<close>; with the specification's scenario
  (\<open>Basis\<close> of 3 rows and 1 column) the product does not exist and the solver raises.
\<close>

theorem subproblem_gradient_of_transposes:
  "subproblem [[1, 0], [0, 1]] [[1, 1], [0, 1]] [[1, 0], [0, 1]] 0.001 1000
     = Inr ([[1, 0], [0, 1]], [[0, 0], [1, 0]], 0) \<and>
   grad_spec [[1, 0], [0, 1]] [[1, 1], [0, 1]] [[1, 0], [0, 1]] = Inr [[0, 1], [0, 1]] \<and>
   subproblem [[1, 2], [3, 4], [5, 6]] [[1], [1], [1]] [[1, 1]] e n = Inl ShapeError \<and>
   grad_spec [[1, 2], [3, 4], [5, 6]] [[1], [1], [1]] [[1, 1]] = Inr [[- 6, - 9]]"
proof -
  have "subproblem [[1, 0], [0, 1]] [[1, 1], [0, 1]] [[1, 0], [0, 1]] 0.001 1000
     = Inr ([[1, 0], [0, 1]], [[0, 0], [1, 0]], 0)"
    by (simp add: subproblem_unfold mat_simps extract_m_def extract_dense_def norm_mx_def)
  moreover have "subproblem [[1, 2], [3, 4], [5, 6]] [[1], [1], [1]] [[1, 1]] e n = Inl ShapeError"
    by (simp add: subproblem_def mat_simps)
  ultimately show ?thesis
    by (simp add: grad_spec_def mat_simps)
qed

text \<open>
  Claim C4. The claim is that the search mode is decided on the first probe. The code
  decides it under \<^verbatim>\<open>if n_iter == 1\<close>, the second probe, and reads it on the first: from
  variables in which \<^verbatim>\<open>decr_alpha\<close> has no value yet, as at the first line search of every
  call, the first probe raises as soon as its step is computed, and no mode is entered.
\<close>

theorem line_search_mode_read_before_decided:
  "v_decr_alpha s = None \<Longrightarrow> probe WtW g (v_H s) (v_alpha s) = Inr r \<Longrightarrow>
   line_search WtW g [0..<20] s = Inl (UnboundLocalError ''decr_alpha'')"
  by (simp add: upt_Cons0 line_search_first_probe)

theorem line_search_mode_read_before_decided_witness:
  "line_search [[16]] [[4]] [0..<20] ((init_vars [[3]])\<lparr>v_grad := Some [[4]], v_iter := Some 0\<rparr>)
     = Inl (UnboundLocalError ''decr_alpha'')"
  using line_search_mode_read_before_decided
    [of "(init_vars [[3]])\<lparr>v_grad := Some [[4]], v_iter := Some 0\<rparr>" "[[16]]" "[[4]]"
        "([[0]], - 10.88)"]
  by (simp add: init_vars_def probe_def mat_simps sop_def ne_def)

subsection \<open>Nonnegativity of the factors\<close>










text \<open>
  A trial in which every update step completes when \<^verbatim>\<open>self.subproblem\<close> is \<^verbatim>\<open>_subproblem\<close>:
  \<open>V = [[11]]\<close> seeded with \<open>W = [[4]]\<close> and \<open>H = [[3]]\<close>, \<^verbatim>\<open>min_residuals = 1.5\<close> and
  \<^verbatim>\<open>max_iter = 1\<close>. Then \<open>gW = [[3]]\<close>, \<open>gH = [[4]]\<close>, \<^verbatim>\<open>init_grad\<close> is 3, both subproblems meet
  their tolerance 9/2 at once, and the objective stays at 5.
\<close>

lemma example_init:
  "init_trial [[11]] [[4]] [[3]] (set_params (Some (3 / 2))) (Some 1) 0 =
     Inr \<lparr>self_V = [[11]], self_W = [[4]], self_H = [[3]], self_gW = [[3]], self_gH = [[4]],
       self_init_grad = 3, self_epsW = 9 / 2, self_epsH = 9 / 2, self_min_residuals = 3 / 2,
       self_max_iter = Some 1, self_test_conv = 0\<rparr>"
  by (simp add: init_trial_def set_params_def mat_simps sqrt_9)







subsection \<open>The stopping criterion\<close>






subsection \<open>The projected-gradient extraction\<close>

lemma sumsq_append: "sumsq (xs @ ys) = sumsq xs + sumsq ys"
  by (simp add: sumsq_def)

lemma sumsq_concat: "sumsq (concat xss) = sum_list (map sumsq xss)"
  by (induction xss) (simp_all add: sumsq_def)

lemma sum_list_nth: "sum_list (map f xs) = (\<Sum>i<length xs. f (xs ! i))"
  using sum_list_sum_nth [of "map f xs"] by (simp add: atLeast0LessThan)

lemma sumsq_filter_zip:
  "sumsq (map fst (filter P zs)) = sum_list (map (\<lambda>z. if P z then fst z * fst z else 0) zs)"
  by (induction zs) (simp_all add: sumsq_def)

lemma wf_mat_row: "wf_mat A \<Longrightarrow> i < nrows A \<Longrightarrow> length (A ! i) = ncols A"
  by (simp add: wf_mat_def list_all_length nrows_def)

lemma sumsq_extract_dense:
  assumes "wf_mat G" "wf_mat X" "same_shape G X"
  shows "sumsq (concat (map2 (\<lambda>xr yr. map fst (filter (\<lambda>(x, y). x < 0 \<or> 0 < y) (zip xr yr))) G X))
    = (\<Sum>i<nrows G. \<Sum>j<ncols G. if G ! i ! j < 0 \<or> 0 < X ! i ! j then G ! i ! j * (G ! i ! j) else 0)"
proof -
  have len: "length X = length G" using assms(3) by (simp add: same_shape_def nrows_def)
  have row: "\<And>i. i < length G \<Longrightarrow> length (G ! i) = ncols G \<and> length (X ! i) = ncols G"
    using assms wf_mat_row [of G] wf_mat_row [of X] by (simp add: same_shape_def nrows_def)
  have "sumsq (concat (map2 (\<lambda>xr yr. map fst (filter (\<lambda>(x, y). x < 0 \<or> 0 < y) (zip xr yr))) G X))
      = (\<Sum>i<length G. sumsq (map fst (filter (\<lambda>(x, y). x < 0 \<or> 0 < y) (zip (G ! i) (X ! i)))))"
    by (simp add: sumsq_concat sum_list_nth len o_def split_def)
  also have "\<dots> = (\<Sum>i<length G. \<Sum>j<ncols G.
       if G ! i ! j < 0 \<or> 0 < X ! i ! j then G ! i ! j * (G ! i ! j) else 0)"
  proof (rule sum.cong [OF refl])
    fix i assume "i \<in> {..<length G}"
    then have i: "i < length G" by simp
    show "sumsq (map fst (filter (\<lambda>(x, y). x < 0 \<or> 0 < y) (zip (G ! i) (X ! i))))
        = (\<Sum>j<ncols G. if G ! i ! j < 0 \<or> 0 < X ! i ! j then G ! i ! j * (G ! i ! j) else 0)"
      using row [OF i] by (simp add: sumsq_filter_zip sum_list_nth split_def cong: if_cong)
  qed
  finally show ?thesis by (simp add: nrows_def)
qed

lemma metric_dense:
  assumes "wf_mat A" "wf_mat B" "same_shape A B"
  shows "\<exists>E. extract_m (Dense A) (Dense B) = Inr (Dense E) \<and>
     norm_m E = pg_metric_spec (nrows A) (ncols A) (\<lambda>i j. A ! i ! j) (\<lambda>i j. B ! i ! j)"
  using sumsq_extract_dense [OF assms] assms(3)
  by (simp add: extract_m_def extract_dense_def norm_m_def pg_metric_spec_def)

lemma extract_sparse_type_error: "extract_m (Sparse S) Y = Inl TypeError"
  by (simp add: extract_m_def lil_matrix_def)

text \<open>
  Claim C6. The claim is that the metric is the Frobenius norm over the entries with
  \<open>G[i,j] < 0\<close> or \<open>X[i,j] > 0\<close> on the dense and on the sparse path. It is on the dense
  path. On the sparse path line 171 passes \<^verbatim>\<open>lil_matrix\<close> a keyword it does not take, so
  \<^verbatim>\<open>__extract\<close> raises for every sparse \<open>G\<close>; and a dense \<open>G\<close> with a sparse \<open>X\<close> raises at
  line 182.
\<close>

theorem extract_sparse_raises:
  "extract_m (Sparse S) Y = Inl TypeError \<and>
   extract_m (Dense A) (Sparse S) = Inl IndexError \<and>
   (wf_mat A \<and> wf_mat B \<and> same_shape A B \<longrightarrow>
      (\<exists>E. extract_m (Dense A) (Dense B) = Inr (Dense E) \<and>
           norm_m E = pg_metric_spec (nrows A) (ncols A) (\<lambda>i j. A ! i ! j) (\<lambda>i j. B ! i ! j)))"
  using metric_dense [of A B]
  by (simp add: extract_sparse_type_error) (simp add: extract_m_def)

theorem extract_sparse_raises_witness:
  "extract_m (Sparse \<lparr>shape = (1, 1), indptr = [0, 1], indices = [0], data = [- 1]\<rparr>) (Dense [[0]])
     = Inl TypeError \<and>
   extract_m (Dense [[3, - 4], [0, 5]]) (Dense [[0, 0], [1, 2]]) = Inr (Dense [[- 4, 0, 5]]) \<and>
   pg_metric_spec 2 2 (\<lambda>i j. [[3, - 4], [0, 5]] ! i ! j) (\<lambda>i j. [[0, 0], [1, 2]] ! i ! j) = sqrt 41"
proof -
  have ev: "extract_m (Dense [[3, - 4], [0, 5]]) (Dense [[0, 0], [1, 2]]) = Inr (Dense [[- 4, 0, 5]])"
    by (simp add: extract_m_def extract_dense_def same_shape_def nrows_def ncols_def)
  have ok: "wf_mat [[3, - 4], [0, 5]] \<and> wf_mat [[0, 0], [1, 2]] \<and>
      same_shape [[3, - 4], [0, 5]] [[0, 0], [1, 2]]"
    by (simp add: wf_mat_def same_shape_def nrows_def ncols_def)
  have d: "nrows [[3, - 4], [0, 5]] = 2" "ncols [[3, - 4], [0, 5]] = 2"
    by (simp_all add: nrows_def ncols_def)
  from extract_sparse_raises
    [of "\<lparr>shape = (1, 1), indptr = [0, 1], indices = [0], data = [- 1]\<rparr>" "Dense [[0]]"
        "[[3, - 4], [0, 5]]" "[[0, 0], [1, 2]]"] ok
  show ?thesis
    unfolding ev d by (simp add: norm_m_def sumsq_def)
qed

lemma extract_dense_all_positive:
  assumes "wf_mat A" "wf_mat B" "same_shape A B"
    and pos: "\<And>i j. i < nrows A \<Longrightarrow> j < ncols A \<Longrightarrow> 0 < B ! i ! j"
  shows "extract_dense A B = Inr [concat A]"
proof -
  have len: "length B = length A" using assms(3) by (simp add: same_shape_def nrows_def)
  have row: "\<And>i. i < length A \<Longrightarrow> length (A ! i) = ncols A \<and> length (B ! i) = ncols A"
    using assms wf_mat_row [of A] wf_mat_row [of B] by (simp add: same_shape_def nrows_def)
  have "map2 (\<lambda>xr yr. map fst (filter (\<lambda>(x, y). x < 0 \<or> 0 < y) (zip xr yr))) A B = A"
  proof (rule nth_equalityI)
    show "length (map2 (\<lambda>xr yr. map fst (filter (\<lambda>(x, y). x < 0 \<or> 0 < y) (zip xr yr))) A B) = length A"
      using len by simp
  next
    fix i assume "i < length (map2 (\<lambda>xr yr. map fst (filter (\<lambda>(x, y). x < 0 \<or> 0 < y) (zip xr yr))) A B)"
    then have i: "i < length A" using len by simp
    have "filter (\<lambda>(x, y). x < 0 \<or> 0 < y) (zip (A ! i) (B ! i)) = zip (A ! i) (B ! i)"
      using row [OF i] pos [of i] i by (auto simp: filter_id_conv in_set_zip nrows_def)
    then show "map2 (\<lambda>xr yr. map fst (filter (\<lambda>(x, y). x < 0 \<or> 0 < y) (zip xr yr))) A B ! i = A ! i"
      using i len row [OF i] by simp
  qed
  with assms(3) show ?thesis by (simp add: extract_dense_def)
qed

lemma extract_dense_none:
  assumes "wf_mat A" "wf_mat B" "same_shape A B"
    and z: "\<And>i j. i < nrows A \<Longrightarrow> j < ncols A \<Longrightarrow> 0 \<le> A ! i ! j \<and> B ! i ! j = 0"
  shows "extract_dense A B = Inr [[]]"
proof -
  have len: "length B = length A" using assms(3) by (simp add: same_shape_def nrows_def)
  have row: "\<And>i. i < length A \<Longrightarrow> length (A ! i) = ncols A \<and> length (B ! i) = ncols A"
    using assms wf_mat_row [of A] wf_mat_row [of B] by (simp add: same_shape_def nrows_def)
  have "concat (map2 (\<lambda>xr yr. map fst (filter (\<lambda>(x, y). x < 0 \<or> 0 < y) (zip xr yr))) A B) = []"
  proof -
    have "\<And>i. i < length A \<Longrightarrow> filter (\<lambda>(x, y). x < 0 \<or> 0 < y) (zip (A ! i) (B ! i)) = []"
    proof -
      fix i assume i: "i < length A"
      show "filter (\<lambda>(x, y). x < 0 \<or> 0 < y) (zip (A ! i) (B ! i)) = []"
        using row [OF i] z [of i] i by (fastforce simp: filter_empty_conv in_set_zip nrows_def)
    qed
    then show ?thesis
      using len by (auto simp: in_set_conv_nth)
  qed
  with assms(3) show ?thesis by (simp add: extract_dense_def)
qed

text \<open>
  Claim C8, as stated, fails: a negative entry of \<open>G\<close> is active whatever \<open>X\<close> holds, so an
  all-nonpositive \<open>G\<close> with an all-zero \<open>X\<close> does not give a zero matrix; and line 182
  returns the selected entries as one row, not in the shape of \<open>G\<close>.
\<close>

theorem extract_nonpositive_not_zero:
  "extract_m (Dense [[- 1]]) (Dense [[0]]) = Inr (Dense [[- 1]]) \<and>
   extract_m (Dense [[1, 2], [3, 4]]) (Dense [[1, 1], [1, 1]]) = Inr (Dense [[1, 2, 3, 4]])"
  by (simp add: extract_m_def extract_dense_def same_shape_def nrows_def ncols_def)

text \<open>
  Claim C8, amended, for dense operands. When every entry of \<open>X\<close> is positive the extraction
  returns every entry of \<open>G\<close>, as one row in row-major order. When \<open>G\<close> has no negative entry
  and \<open>X\<close> is zero everywhere it returns no entry: an empty row.
\<close>

theorem extract_at_extremes:
  "wf_mat A \<Longrightarrow> wf_mat B \<Longrightarrow> same_shape A B \<Longrightarrow>
   ((\<forall>i<nrows A. \<forall>j<ncols A. 0 < B ! i ! j) \<longrightarrow>
      extract_m (Dense A) (Dense B) = Inr (Dense [concat A])) \<and>
   ((\<forall>i<nrows A. \<forall>j<ncols A. 0 \<le> A ! i ! j \<and> B ! i ! j = 0) \<longrightarrow>
      extract_m (Dense A) (Dense B) = Inr (Dense [[]]))"
  using extract_dense_all_positive [of A B] extract_dense_none [of A B]
  by (simp add: extract_m_def)

theorem extract_at_extremes_witness:
  "extract_m (Dense [[1, 2]]) (Dense [[3, 4]]) = Inr (Dense [[1, 2]]) \<and>
   extract_m (Dense [[1, 0]]) (Dense [[0, 0]]) = Inr (Dense [[]])"
proof -
  have ok: "wf_mat [[1, 2]]" "wf_mat [[3, 4]]" "wf_mat [[1, 0]]" "wf_mat [[0, 0]]"
    "same_shape [[1, 2]] [[3, 4]]" "same_shape [[1, 0]] [[0, 0]]"
    by (simp_all add: wf_mat_def same_shape_def nrows_def ncols_def)
  have 1: "extract_m (Dense [[1, 2]]) (Dense [[3, 4]]) = Inr (Dense [[1, 2]])"
    using extract_at_extremes [OF ok(1) ok(2) ok(5)]
    by (simp add: nrows_def ncols_def numeral_2_eq_2 less_Suc_eq)
  have 2: "extract_m (Dense [[1, 0]]) (Dense [[0, 0]]) = Inr (Dense [[]])"
    using extract_at_extremes [OF ok(3) ok(4) ok(6)]
    by (simp add: nrows_def ncols_def numeral_2_eq_2 less_Suc_eq)
  from 1 2 show ?thesis by simp
qed

subsection \<open>The start of a trial\<close>

lemma is_mat_row: "is_mat m n A \<Longrightarrow> i < m \<Longrightarrow> length (A ! i) = n"
  by (simp add: is_mat_def list_all_length)

lemma is_mat_dims: "is_mat m n A \<Longrightarrow> 0 < m \<Longrightarrow> nrows A = m \<and> ncols A = n"
  by (cases A) (auto simp: is_mat_def nrows_def ncols_def)

lemma is_mat_transpose:
  assumes "is_mat m n A" "0 < m"
  shows "is_mat n m (transpose_m A)"
    and "\<And>i j. i < m \<Longrightarrow> j < n \<Longrightarrow> transpose_m A ! j ! i = A ! i ! j"
proof -
  from is_mat_dims [OF assms] have d: "ncols A = n" "length A = m" by (simp_all add: nrows_def)
  show "is_mat n m (transpose_m A)"
    by (simp add: is_mat_def transpose_m_def d list_all_iff)
  show "\<And>i j. i < m \<Longrightarrow> j < n \<Longrightarrow> transpose_m A ! j ! i = A ! i ! j"
    by (simp add: transpose_m_def d)
qed

lemma sum_list_map2_nth:
  "length xs = length ys \<Longrightarrow> sum_list (map2 f xs ys) = (\<Sum>k<length xs. f (xs ! k) (ys ! k))"
  by (simp add: sum_list_nth)

lemma is_mat_dot:
  assumes "is_mat m k A" "is_mat k n B" "0 < m" "0 < k"
  shows "\<exists>C. dot A B = Inr C \<and> is_mat m n C \<and>
           (\<forall>i j. i < m \<and> j < n \<longrightarrow> C ! i ! j = (\<Sum>l<k. A ! i ! l * B ! l ! j))"
proof -
  from is_mat_dims [OF assms(1,3)] is_mat_dims [OF assms(2,4)]
  have d: "nrows A = m" "ncols A = k" "nrows B = k" "ncols B = n" by simp_all
  let ?C = "map (\<lambda>r. map (\<lambda>c. sum_list (map2 (*) r c)) (transpose_m B)) A"
  have tB: "is_mat n k (transpose_m B)"
    "\<And>i j. i < k \<Longrightarrow> j < n \<Longrightarrow> transpose_m B ! j ! i = B ! i ! j"
    using is_mat_transpose [OF assms(2,4)] by simp_all
  have lt: "length (transpose_m B) = n" using tB(1) by (simp add: is_mat_def)
  have 1: "dot A B = Inr ?C" using d by (simp add: dot_def)
  have 2: "is_mat m n ?C"
    using d lt by (simp add: is_mat_def nrows_def list_all_iff)
  have 3: "\<forall>i j. i < m \<and> j < n \<longrightarrow> ?C ! i ! j = (\<Sum>l<k. A ! i ! l * B ! l ! j)"
  proof (intro allI impI)
    fix i j assume ij: "i < m \<and> j < n"
    then have la: "length (A ! i) = k" using is_mat_row [OF assms(1)] by simp
    have lb: "length (transpose_m B ! j) = k" using is_mat_row [OF tB(1)] ij by simp
    have "?C ! i ! j = sum_list (map2 (*) (A ! i) (transpose_m B ! j))"
      using ij d lt by (simp add: nrows_def)
    also have "\<dots> = (\<Sum>l<k. A ! i ! l * (transpose_m B ! j ! l))"
      using sum_list_map2_nth [of "A ! i" "transpose_m B ! j" "(*)"] la lb by simp
    also have "\<dots> = (\<Sum>l<k. A ! i ! l * B ! l ! j)"
      using ij by (intro sum.cong refl) (simp add: tB(2))
    finally show "?C ! i ! j = (\<Sum>l<k. A ! i ! l * B ! l ! j)" .
  qed
  from 1 2 3 show ?thesis by blast
qed

lemma is_mat_sub:
  assumes "is_mat m n A" "is_mat m n B" "0 < m"
  shows "\<exists>D. sub_m A B = Inr D \<and> is_mat m n D \<and>
           (\<forall>i j. i < m \<and> j < n \<longrightarrow> D ! i ! j = A ! i ! j - B ! i ! j)"
proof -
  from is_mat_dims [OF assms(1,3)] is_mat_dims [OF assms(2,3)]
  have d: "nrows A = m" "ncols A = n" "nrows B = m" "ncols B = n" by simp_all
  let ?D = "map2 (map2 (-)) A B"
  have 1: "sub_m A B = Inr ?D" using d by (simp add: sub_m_def same_shape_def)
  have l: "length A = m" "length B = m" using d by (simp_all add: nrows_def)
  have 2: "is_mat m n ?D"
    using l is_mat_row [OF assms(1)] is_mat_row [OF assms(2)]
    by (simp add: is_mat_def list_all_length)
  have 3: "\<forall>i j. i < m \<and> j < n \<longrightarrow> ?D ! i ! j = A ! i ! j - B ! i ! j"
    using l is_mat_row [OF assms(1)] is_mat_row [OF assms(2)] by simp
  from 1 2 3 show ?thesis by blast
qed

lemma vstack_rows_seq:
  assumes "is_mat m n A" "0 < m"
  shows "vstack (rows_seq A) fmt = Inr A"
proof -
  from assms obtain r rs where A: "A = r # rs" by (cases A) (auto simp: is_mat_def)
  have "list_all (\<lambda>B. ncols B = ncols [r]) (rows_seq A)"
    using assms(1) A by (auto simp: is_mat_def rows_seq_def ncols_def list_all_iff)
  moreover have "concat (rows_seq A) = A"
    by (induction A) (simp_all add: rows_seq_def)
  ultimately show ?thesis using A by (simp add: vstack_def rows_seq_def)
qed

text \<open>
  What the start of a trial computes for \<open>V\<close> of shape \<open>m \<times> n\<close> seeded with \<open>W\<close> of shape
  \<open>m \<times> r\<close> and \<open>H\<close> of shape \<open>r \<times> n\<close>: \<open>gW = W (H H\<^sup>T) - V H\<^sup>T\<close> and
  \<open>gH = (W\<^sup>T W) H - W\<^sup>T V\<close>, entry by entry; \<^verbatim>\<open>init_grad\<close> is the Frobenius norm of \<open>gW\<close>
  alone; and both tolerances are \<open>max(0.001, min_residuals) * init_grad\<close>.
\<close>

lemma init_trial_values:
  assumes "0 < m" "0 < n" "0 < r" "is_mat m n V0" "is_mat m r W0" "is_mat r n H0"
  shows "\<exists>s. init_trial V0 W0 H0 mr mi tc = Inr s \<and>
     is_mat m r (self_gW s) \<and> is_mat r n (self_gH s) \<and>
     (\<forall>i j. i < m \<and> j < r \<longrightarrow>
        self_gW s ! i ! j =
          (\<Sum>k<r. W0 ! i ! k * (\<Sum>l<n. H0 ! k ! l * H0 ! j ! l)) - (\<Sum>l<n. V0 ! i ! l * H0 ! j ! l)) \<and>
     (\<forall>i j. i < r \<and> j < n \<longrightarrow>
        self_gH s ! i ! j =
          (\<Sum>k<r. (\<Sum>l<m. W0 ! l ! i * W0 ! l ! k) * H0 ! k ! j) - (\<Sum>l<m. W0 ! l ! i * V0 ! l ! j)) \<and>
     self_init_grad s = norm_m (self_gW s) \<and>
     self_epsW s = max 0.001 mr * self_init_grad s \<and>
     self_epsH s = max 0.001 mr * self_init_grad s"
proof -
  note Ht = is_mat_transpose [OF assms(6,3)]
  note Wt = is_mat_transpose [OF assms(5,1)]
  from is_mat_dot [OF assms(6) Ht(1) assms(3,2)] obtain HHt where
    HHt: "dot H0 (transpose_m H0) = Inr HHt" "is_mat r r HHt"
      "\<forall>i j. i < r \<and> j < r \<longrightarrow> HHt ! i ! j = (\<Sum>l<n. H0 ! i ! l * transpose_m H0 ! l ! j)"
    by blast
  from is_mat_dot [OF assms(5) HHt(2) assms(1,3)] obtain WHHt where
    WHHt: "dot W0 HHt = Inr WHHt" "is_mat m r WHHt"
      "\<forall>i j. i < m \<and> j < r \<longrightarrow> WHHt ! i ! j = (\<Sum>k<r. W0 ! i ! k * HHt ! k ! j)"
    by blast
  from is_mat_dot [OF assms(4) Ht(1) assms(1,2)] obtain VHt where
    VHt: "dot V0 (transpose_m H0) = Inr VHt" "is_mat m r VHt"
      "\<forall>i j. i < m \<and> j < r \<longrightarrow> VHt ! i ! j = (\<Sum>l<n. V0 ! i ! l * transpose_m H0 ! l ! j)"
    by blast
  from is_mat_sub [OF WHHt(2) VHt(2) assms(1)] obtain gW0 where
    gW0: "sub_m WHHt VHt = Inr gW0" "is_mat m r gW0"
      "\<forall>i j. i < m \<and> j < r \<longrightarrow> gW0 ! i ! j = WHHt ! i ! j - VHt ! i ! j"
    by blast
  from is_mat_dot [OF Wt(1) assms(5) assms(3,1)] obtain WtW where
    WtW: "dot (transpose_m W0) W0 = Inr WtW" "is_mat r r WtW"
      "\<forall>i j. i < r \<and> j < r \<longrightarrow> WtW ! i ! j = (\<Sum>l<m. transpose_m W0 ! i ! l * W0 ! l ! j)"
    by blast
  from is_mat_dot [OF WtW(2) assms(6) assms(3,3)] obtain WtWH where
    WtWH: "dot WtW H0 = Inr WtWH" "is_mat r n WtWH"
      "\<forall>i j. i < r \<and> j < n \<longrightarrow> WtWH ! i ! j = (\<Sum>k<r. WtW ! i ! k * H0 ! k ! j)"
    by blast
  from is_mat_dot [OF Wt(1) assms(4) assms(3,1)] obtain WtV where
    WtV: "dot (transpose_m W0) V0 = Inr WtV" "is_mat r n WtV"
      "\<forall>i j. i < r \<and> j < n \<longrightarrow> WtV ! i ! j = (\<Sum>l<m. transpose_m W0 ! i ! l * V0 ! l ! j)"
    by blast
  from is_mat_sub [OF WtWH(2) WtV(2) assms(3)] obtain gH0 where
    gH0: "sub_m WtWH WtV = Inr gH0" "is_mat r n gH0"
      "\<forall>i j. i < r \<and> j < n \<longrightarrow> gH0 ! i ! j = WtWH ! i ! j - WtV ! i ! j"
    by blast
  have st: "vstack (rows_seq gW0) (Some (transpose_m gH0)) = Inr gW0"
    using vstack_rows_seq [OF gW0(2) assms(1)] .
  let ?s = "\<lparr>self_V = V0, self_W = W0, self_H = H0, self_gW = gW0, self_gH = gH0,
               self_init_grad = norm_m gW0,
               self_epsW = max 0.001 mr * norm_m gW0,
               self_epsH = max 0.001 mr * norm_m gW0,
               self_min_residuals = mr, self_max_iter = mi, self_test_conv = tc\<rparr>"
  have run: "init_trial V0 W0 H0 mr mi tc = Inr ?s"
    by (simp add: init_trial_def HHt(1) WHHt(1) VHt(1) gW0(1) WtW(1) WtWH(1) WtV(1) gH0(1) st)
  have eW: "\<forall>i j. i < m \<and> j < r \<longrightarrow>
        gW0 ! i ! j =
          (\<Sum>k<r. W0 ! i ! k * (\<Sum>l<n. H0 ! k ! l * H0 ! j ! l)) - (\<Sum>l<n. V0 ! i ! l * H0 ! j ! l)"
  proof (intro allI impI)
    fix i j assume ij: "i < m \<and> j < r"
    have h: "\<And>k. k < r \<Longrightarrow> HHt ! k ! j = (\<Sum>l<n. H0 ! k ! l * H0 ! j ! l)"
      using ij HHt(3) by (simp add: Ht(2))
    have "WHHt ! i ! j = (\<Sum>k<r. W0 ! i ! k * HHt ! k ! j)" using ij WHHt(3) by simp
    also have "\<dots> = (\<Sum>k<r. W0 ! i ! k * (\<Sum>l<n. H0 ! k ! l * H0 ! j ! l))"
      by (intro sum.cong refl) (simp add: h)
    finally have a: "WHHt ! i ! j = (\<Sum>k<r. W0 ! i ! k * (\<Sum>l<n. H0 ! k ! l * H0 ! j ! l))" .
    have "VHt ! i ! j = (\<Sum>l<n. V0 ! i ! l * transpose_m H0 ! l ! j)" using ij VHt(3) by simp
    also have "\<dots> = (\<Sum>l<n. V0 ! i ! l * H0 ! j ! l)"
      using ij by (intro sum.cong refl) (simp add: Ht(2))
    finally have b: "VHt ! i ! j = (\<Sum>l<n. V0 ! i ! l * H0 ! j ! l)" .
    from a b gW0(3) ij show "gW0 ! i ! j =
          (\<Sum>k<r. W0 ! i ! k * (\<Sum>l<n. H0 ! k ! l * H0 ! j ! l)) - (\<Sum>l<n. V0 ! i ! l * H0 ! j ! l)"
      by simp
  qed
  have eH: "\<forall>i j. i < r \<and> j < n \<longrightarrow>
        gH0 ! i ! j =
          (\<Sum>k<r. (\<Sum>l<m. W0 ! l ! i * W0 ! l ! k) * H0 ! k ! j) - (\<Sum>l<m. W0 ! l ! i * V0 ! l ! j)"
  proof (intro allI impI)
    fix i j assume ij: "i < r \<and> j < n"
    have h: "\<And>k. k < r \<Longrightarrow> WtW ! i ! k = (\<Sum>l<m. W0 ! l ! i * W0 ! l ! k)"
      using ij WtW(3) by (simp add: Wt(2))
    have "WtWH ! i ! j = (\<Sum>k<r. WtW ! i ! k * H0 ! k ! j)" using ij WtWH(3) by simp
    also have "\<dots> = (\<Sum>k<r. (\<Sum>l<m. W0 ! l ! i * W0 ! l ! k) * H0 ! k ! j)"
      by (intro sum.cong refl) (simp add: h)
    finally have a: "WtWH ! i ! j = (\<Sum>k<r. (\<Sum>l<m. W0 ! l ! i * W0 ! l ! k) * H0 ! k ! j)" .
    have "WtV ! i ! j = (\<Sum>l<m. transpose_m W0 ! i ! l * V0 ! l ! j)" using ij WtV(3) by simp
    also have "\<dots> = (\<Sum>l<m. W0 ! l ! i * V0 ! l ! j)"
      using ij by (intro sum.cong refl) (simp add: Wt(2))
    finally have b: "WtV ! i ! j = (\<Sum>l<m. W0 ! l ! i * V0 ! l ! j)" .
    from a b gH0(3) ij show "gH0 ! i ! j =
          (\<Sum>k<r. (\<Sum>l<m. W0 ! l ! i * W0 ! l ! k) * H0 ! k ! j) - (\<Sum>l<m. W0 ! l ! i * V0 ! l ! j)"
      by simp
  qed
  show ?thesis
    using run gW0(2) gH0(2) eW eH by (intro exI [of _ ?s]) simp
qed

text \<open>
  Claim C9. The claim is that \<^verbatim>\<open>init_grad\<close> is the Frobenius norm of \<open>gW\<close> stacked on the
  transpose of \<open>gH\<close>. The gradients are as claimed, and the tolerances are
  \<open>max(0.001, min_residuals) * init_grad\<close>; but line 50 gives \<^verbatim>\<open>vstack\<close> two arguments, so
  only \<open>gW\<close> is stacked. For \<open>V = [[11]]\<close>, \<open>W = [[3]]\<close>, \<open>H = [[4]]\<close> the code has
  \<^verbatim>\<open>init_grad = 4\<close> where the claim's is 5; for the specification's scenario it has
  \<open>sqrt 107\<close> where the claim's is \<open>sqrt 224\<close>.
\<close>

theorem init_grad_of_gW_alone:
  "init_trial [[11]] [[3]] [[4]] (1 / 1000) (Some 50) 0 =
     Inr \<lparr>self_V = [[11]], self_W = [[3]], self_H = [[4]], self_gW = [[4]], self_gH = [[3]],
          self_init_grad = 4, self_epsW = 4 / 1000, self_epsH = 4 / 1000,
          self_min_residuals = 1 / 1000, self_max_iter = Some 50, self_test_conv = 0\<rparr> \<and>
   init_grad_spec [[4]] [[3]] = 5 \<and>
   init_trial [[1, 2], [3, 4], [5, 6]] [[1], [1], [1]] [[1, 1]] (1 / 10000) (Some 50) 0 =
     Inr \<lparr>self_V = [[1, 2], [3, 4], [5, 6]], self_W = [[1], [1], [1]], self_H = [[1, 1]],
          self_gW = [[- 1], [- 5], [- 9]], self_gH = [[- 6, - 9]], self_init_grad = sqrt 107,
          self_epsW = sqrt 107 / 1000, self_epsH = sqrt 107 / 1000,
          self_min_residuals = 1 / 10000, self_max_iter = Some 50, self_test_conv = 0\<rparr> \<and>
   init_grad_spec [[- 1], [- 5], [- 9]] [[- 6, - 9]] = sqrt 224 \<and>
   sqrt 107 < sqrt 224"
  by (simp add: init_trial_def init_grad_spec_def mat_simps sqrt_16 sqrt_25)

end
